theory Spec2Isabelle
  imports Main "HOL-Library.Word" "HOL-Library.Char_ord" "HOL-Library.List_Lexorder"
    "HOL-Library.Multiset"
begin

section \<open>The MaxMind mmdb output plugin (plugin/maxmind/country\_mmdb\_out.go)\<close>

text \<open>
  The plugin selects labels (\<open>filterAndSortList\<close>), builds one search tree for all of them
  (\<open>outputSingleFile\<close>) or one per label (\<open>outputOneFilePerList\<close>) and writes each tree to a
  file. Go strings are byte sequences and so are HOL strings; \<open>slices.Sort\<close> on strings
  orders them bytewise, which is the lexicographic order on \<open>char list\<close> used here.
  The functions of Go's standard library and of mmdbwriter that the plugin calls are not
  part of it: they are the fields of an environment, and every general theorem holds for
  whatever functions the environment has.
\<close>

subsection \<open>Data\<close>

text \<open>\<open>lib.IPType\<close> is a string type; the plugin compares it with two constants of lib.\<close>

type_synonym IPType = string

definition IPv4 :: IPType
  \<comment> \<open>Modelled from the spec: the constant \<open>lib.IPv4\<close>, the configuration value "ipv4".\<close>
  where "IPv4 = ''ipv4''"

definition IPv6 :: IPType
  \<comment> \<open>Modelled from the spec: the constant \<open>lib.IPv6\<close>, the configuration value "ipv6".\<close>
  where "IPv6 = ''ipv6''"

record maxmindMMDBOut =
  Type :: string
  Action :: string
  Description :: string
  OutputName :: string
  OutputDir :: string
  Want :: "string list"
  Exclude :: "string list"
  OneFilePerList :: bool
  OnlyIPType :: IPType

text \<open>A Go \<open>error\<close>: one raised by a library, or the plugin's own wrapping of one.\<close>

datatype error = External string | FailedToAddEntry string error

text \<open>\<open>netip.Prefix\<close>: an address of one of the two families and a mask length.\<close>

datatype Addr = Addr4 "32 word" | Addr6 "128 word"

datatype Prefix = Prefix Addr nat

fun Is4 :: "Prefix \<Rightarrow> bool" where
  "Is4 (Prefix (Addr4 a) n) = True"
| "Is4 (Prefix (Addr6 a) n) = False"

text \<open>
  \<open>lib.Entry\<close> as the plugin sees it: its name and its two prefix-set accessors, each of
  which returns an error or a set, read through \<open>Prefixes()\<close> as a list of prefixes.
\<close>

record Entry =
  GetName :: string
  GetIPv4Set :: "error + Prefix list"
  GetIPv6Set :: "error + Prefix list"

text \<open>
  \<open>lib.Container\<close> as the plugin sees it: \<open>Loop\<close> enumerates the entries (in some order:
  the channel is fed from a Go map) and \<open>GetEntry\<close> looks a name up.
\<close>

record Container =
  Loop :: "Entry list"
  GetEntry :: "string \<Rightarrow> Entry option"

text \<open>\<open>mmdbtype.Map\<close> and \<open>mmdbtype.String\<close>, the two value kinds the plugin builds.\<close>

datatype mmdbtype = String string | Map "(string \<times> mmdbtype) list"

text \<open>
  The fields of \<open>mmdbwriter.Options\<close> the plugin sets. Its \<open>Description\<close> is called
  \<open>OptDescription\<close> here, the plugin's own struct having a field of that name.
\<close>

record Options =
  DatabaseType :: string
  OptDescription :: "(string \<times> string) list"
  IPVersion :: nat
  RecordSize :: nat
  IncludeReservedNetworks :: bool

text \<open>
  \<open>mmdbwriter.Tree\<close> is a library object. It is represented by what the plugin did to it:
  the options it was created with and the sequence of successful \<open>Insert\<close> calls.
\<close>

record Tree =
  opts :: Options
  inserted :: "(Prefix \<times> mmdbtype) list"

text \<open>
  A file on disk is either created and not (completely) written, or holds the
  serialisation of a tree.
\<close>

datatype diskfile = Truncated | Database Tree

datatype log_line = EntryNotFound string | Converted string string string

record world =
  dirs :: "string set"
  files :: "string \<rightharpoonup> diskfile"
  logs :: "log_line list"

text \<open>
  The environment. The operations of the Go standard library and of mmdbwriter that can fail
  say whether the call fails, and with which error. \<open>Join\<close> is \<open>filepath.Join\<close>;
  \<open>TrimSpace\<close>, \<open>ToUpper\<close> and \<open>ToLower\<close> are the functions of package \<open>strings\<close>,
  which work on Unicode text.
\<close>

record Env =
  MkdirAll_err :: "world \<Rightarrow> string \<Rightarrow> error option"
  New_err :: "Options \<Rightarrow> error option"
  Insert_err :: "Tree \<Rightarrow> Prefix \<Rightarrow> mmdbtype \<Rightarrow> error option"
  Create_err :: "world \<Rightarrow> string \<Rightarrow> error option"
  WriteTo_err :: "world \<Rightarrow> Tree \<Rightarrow> error option"
  Join :: "string \<Rightarrow> string \<Rightarrow> string"
  TrimSpace :: "string \<Rightarrow> string"
  ToUpper :: "string \<Rightarrow> string"
  ToLower :: "string \<Rightarrow> string"

subsection \<open>filterAndSortList\<close>

text \<open>The first loop: \<open>excludeMap\<close>, a Go \<open>map[string]bool\<close>.\<close>

fun excludeLoop :: "Env \<Rightarrow> string list \<Rightarrow> (string \<rightharpoonup> bool) \<Rightarrow> (string \<rightharpoonup> bool)" where
  "excludeLoop env [] excludeMap = excludeMap"
| "excludeLoop env (exclude # rest) excludeMap =
     (let exclude' = ToUpper env (TrimSpace env exclude)
      in if exclude' \<noteq> [] then excludeLoop env rest (excludeMap(exclude' \<mapsto> True))
         else excludeLoop env rest excludeMap)"

text \<open>Reading a Go map of booleans: a missing key reads as false.\<close>

definition index :: "(string \<rightharpoonup> bool) \<Rightarrow> string \<Rightarrow> bool" where
  "index m k = (case m k of None \<Rightarrow> False | Some b \<Rightarrow> b)"

text \<open>The second loop appends to \<open>wantList\<close>.\<close>

fun wantLoop ::
  "Env \<Rightarrow> (string \<rightharpoonup> bool) \<Rightarrow> string list \<Rightarrow> string list \<Rightarrow> string list" where
  "wantLoop env excludeMap [] wantList = wantList"
| "wantLoop env excludeMap (want # rest) wantList =
     (let want' = ToUpper env (TrimSpace env want)
      in if want' \<noteq> [] \<and> \<not> index excludeMap want'
         then wantLoop env excludeMap rest (wantList @ [want'])
         else wantLoop env excludeMap rest wantList)"

text \<open>The third loop, over the entries of the container.\<close>

fun containerLoop :: "(string \<rightharpoonup> bool) \<Rightarrow> Entry list \<Rightarrow> string list \<Rightarrow> string list" where
  "containerLoop excludeMap [] list = list"
| "containerLoop excludeMap (entry # rest) list =
     (let name = GetName entry
      in if index excludeMap name then containerLoop excludeMap rest list
         else containerLoop excludeMap rest (list @ [name]))"

definition filterAndSortList :: "maxmindMMDBOut \<Rightarrow> Env \<Rightarrow> Container \<Rightarrow> string list" where
  "filterAndSortList m env container =
     (let excludeMap = excludeLoop env (Exclude m) Map.empty;
          wantList = wantLoop env excludeMap (Want m) []
      in if length wantList > 0 then sort wantList
         else sort (containerLoop excludeMap (Loop container) []))"

subsection \<open>createWriter and addEntryToWriter\<close>

definition createWriter :: "maxmindMMDBOut \<Rightarrow> Env \<Rightarrow> error + Tree" where
  "createWriter m env =
     (let ipVersion = (if OnlyIPType m = IPv4 then 4 else 6);
          options = \<lparr>DatabaseType = ''GeoIP2-Country'',
                     OptDescription = [(''en'', ''GeoIP2 Country database converted by geoip tool'')],
                     IPVersion = ipVersion,
                     RecordSize = 28,
                     IncludeReservedNetworks = True\<rparr>
      in case New_err env options of
           Some err \<Rightarrow> Inl err
         | None \<Rightarrow> Inr \<lparr>opts = options, inserted = []\<rparr>)"

text \<open>
  \<open>writer.Insert\<close>: the library refuses the call with an error or records the network and
  its value. \<open>netipx.PrefixIPNet\<close> only changes the representation of the prefix.
\<close>

definition Insert :: "Env \<Rightarrow> Tree \<Rightarrow> Prefix \<Rightarrow> mmdbtype \<Rightarrow> error + Tree" where
  "Insert env writer ipNet v =
     (case Insert_err env writer ipNet v of
        Some err \<Rightarrow> Inl err
      | None \<Rightarrow> Inr (writer\<lparr>inserted := inserted writer @ [(ipNet, v)]\<rparr>))"

text \<open>The \<open>switch\<close> on \<open>m.OnlyIPType\<close> that fills \<open>prefixes\<close>.\<close>

definition selectPrefixes :: "maxmindMMDBOut \<Rightarrow> Entry \<Rightarrow> error + Prefix list" where
  "selectPrefixes m entry =
     (if OnlyIPType m = IPv4 then
        (case GetIPv4Set entry of Inl err \<Rightarrow> Inl err | Inr ipv4Set \<Rightarrow> Inr ipv4Set)
      else if OnlyIPType m = IPv6 then
        (case GetIPv6Set entry of Inl err \<Rightarrow> Inl err | Inr ipv6Set \<Rightarrow> Inr ipv6Set)
      else
        (let prefixes = (case GetIPv4Set entry of Inl err \<Rightarrow> [] | Inr ipv4Set \<Rightarrow> [] @ ipv4Set);
             prefixes = (case GetIPv6Set entry of Inl err \<Rightarrow> prefixes
                         | Inr ipv6Set \<Rightarrow> prefixes @ ipv6Set)
         in Inr prefixes))"

definition countryRecord :: "string \<Rightarrow> mmdbtype" where
  "countryRecord countryCode =
     Map [(''country'', Map [(''iso_code'', String countryCode)]),
          (''registered_country'', Map [(''iso_code'', String countryCode)])]"

text \<open>The insertion loop stops at the first error.\<close>

fun insertLoop :: "Env \<Rightarrow> Tree \<Rightarrow> mmdbtype \<Rightarrow> Prefix list \<Rightarrow> error + Tree" where
  "insertLoop env writer v [] = Inr writer"
| "insertLoop env writer v (prefix # rest) =
     (case Insert env writer prefix v of
        Inl err \<Rightarrow> Inl err
      | Inr writer' \<Rightarrow> insertLoop env writer' v rest)"

definition addEntryToWriter ::
  "maxmindMMDBOut \<Rightarrow> Env \<Rightarrow> Tree \<Rightarrow> Entry \<Rightarrow> string \<Rightarrow> error + Tree" where
  "addEntryToWriter m env writer entry countryCode =
     (case selectPrefixes m entry of
        Inl err \<Rightarrow> Inl err
      | Inr prefixes \<Rightarrow> insertLoop env writer (countryRecord countryCode) prefixes)"

subsection \<open>The two output modes\<close>

text \<open>
  A Go function returning \<open>error\<close> returns \<open>None\<close> for nil here, together with the world it
  leaves behind. \<open>os.Create\<close> makes (or truncates) the file; \<open>WriteTo\<close> fills it.
\<close>

definition writeFile ::
  "Env \<Rightarrow> Tree \<Rightarrow> string \<Rightarrow> world \<Rightarrow> error option \<times> world" where
  "writeFile env writer outputPath s =
     (case Create_err env s outputPath of
        Some err \<Rightarrow> (Some err, s)
      | None \<Rightarrow>
          (let s1 = s\<lparr>files := (files s)(outputPath \<mapsto> Truncated)\<rparr>
           in case WriteTo_err env s1 writer of
                Some err \<Rightarrow> (Some err, s1)
              | None \<Rightarrow> (None, s1\<lparr>files := (files s1)(outputPath \<mapsto> Database writer)\<rparr>)))"

definition logf :: "log_line \<Rightarrow> world \<Rightarrow> world" where
  "logf l s = s\<lparr>logs := logs s @ [l]\<rparr>"

text \<open>The loop of \<open>outputSingleFile\<close> that adds every entry to the one writer.\<close>

fun addAllEntries ::
  "maxmindMMDBOut \<Rightarrow> Env \<Rightarrow> Container \<Rightarrow> string list \<Rightarrow> Tree \<Rightarrow> world
     \<Rightarrow> (error + Tree) \<times> world" where
  "addAllEntries m env container [] writer s = (Inr writer, s)"
| "addAllEntries m env container (name # rest) writer s =
     (case GetEntry container name of
        None \<Rightarrow> addAllEntries m env container rest writer (logf (EntryNotFound name) s)
      | Some entry \<Rightarrow>
          (case addEntryToWriter m env writer entry name of
             Inl err \<Rightarrow> (Inl (FailedToAddEntry name err), s)
           | Inr writer' \<Rightarrow> addAllEntries m env container rest writer' s))"

definition outputSingleFile ::
  "maxmindMMDBOut \<Rightarrow> Env \<Rightarrow> Container \<Rightarrow> string list \<Rightarrow> world \<Rightarrow> error option \<times> world" where
  "outputSingleFile m env container list s =
     (case createWriter m env of
        Inl err \<Rightarrow> (Some err, s)
      | Inr writer \<Rightarrow>
          (case addAllEntries m env container list writer s of
             (Inl err, s1) \<Rightarrow> (Some err, s1)
           | (Inr writer', s1) \<Rightarrow>
               (let outputPath = Join env (OutputDir m) (OutputName m)
                in case writeFile env writer' outputPath s1 of
                     (Some err, s2) \<Rightarrow> (Some err, s2)
                   | (None, s2) \<Rightarrow>
                       (None, logf (Converted (Type m) (OutputName m) (OutputDir m)) s2))))"

fun outputOneFilePerList ::
  "maxmindMMDBOut \<Rightarrow> Env \<Rightarrow> Container \<Rightarrow> string list \<Rightarrow> world \<Rightarrow> error option \<times> world" where
  "outputOneFilePerList m env container [] s = (None, s)"
| "outputOneFilePerList m env container (name # rest) s =
     (case GetEntry container name of
        None \<Rightarrow> outputOneFilePerList m env container rest (logf (EntryNotFound name) s)
      | Some entry \<Rightarrow>
          (case createWriter m env of
             Inl err \<Rightarrow> (Some err, s)
           | Inr writer \<Rightarrow>
               (case addEntryToWriter m env writer entry name of
                  Inl err \<Rightarrow> (Some (FailedToAddEntry name err), s)
                | Inr writer' \<Rightarrow>
                    (let filename = ToLower env name @ ''.mmdb'';
                         outputPath = Join env (OutputDir m) filename
                     in case writeFile env writer' outputPath s of
                          (Some err, s1) \<Rightarrow> (Some err, s1)
                        | (None, s1) \<Rightarrow>
                            outputOneFilePerList m env container rest
                              (logf (Converted (Type m) filename (OutputDir m)) s1)))))"

definition Output :: "maxmindMMDBOut \<Rightarrow> Env \<Rightarrow> Container \<Rightarrow> world \<Rightarrow> error option \<times> world" where
  "Output m env container s =
     (case MkdirAll_err env s (OutputDir m) of
        Some err \<Rightarrow> (Some err, s)
      | None \<Rightarrow>
          (let s1 = s\<lparr>dirs := insert (OutputDir m) (dirs s)\<rparr>;
               list = filterAndSortList m env container
           in if OneFilePerList m then outputOneFilePerList m env container list s1
              else outputSingleFile m env container list s1))"

text \<open>The path of the file that \<open>outputOneFilePerList\<close> writes for a label.\<close>

definition perLabelPath :: "maxmindMMDBOut \<Rightarrow> Env \<Rightarrow> string \<Rightarrow> string" where
  "perLabelPath m env name = Join env (OutputDir m) (ToLower env name @ ''.mmdb'')"

subsection \<open>The vocabulary of the specification\<close>

text \<open>
  Normalising a want-list or exclude-list, in the words of the specification: trim, uppercase,
  discard what became empty.
\<close>

definition normalized :: "Env \<Rightarrow> string list \<Rightarrow> string list" where
  "normalized env xs = filter (\<lambda>e. e \<noteq> []) (map (\<lambda>x. ToUpper env (TrimSpace env x)) xs)"

text \<open>The normalised want entries that are not normalised exclude entries, duplicates kept.\<close>

definition wanted :: "maxmindMMDBOut \<Rightarrow> Env \<Rightarrow> string list" where
  "wanted m env =
     filter (\<lambda>w. w \<notin> set (normalized env (Exclude m))) (normalized env (Want m))"

text \<open>The names of the container's entries, as returned, that are not normalised exclude entries.\<close>

definition available :: "maxmindMMDBOut \<Rightarrow> Env \<Rightarrow> Container \<Rightarrow> string list" where
  "available m env c =
     filter (\<lambda>n. n \<notin> set (normalized env (Exclude m))) (map GetName (Loop c))"

definition wellformedEntry :: "Entry \<Rightarrow> bool"
  \<comment> \<open>Modelled from the spec: the Prefix Source (lib.Entry, not part of the plugin) returns one
      IPv4 set and one IPv6 set, so each accessor yields prefixes of its own family only.\<close>
  where
  "wellformedEntry e =
     ((case GetIPv4Set e of Inl err \<Rightarrow> True | Inr ps \<Rightarrow> list_all Is4 ps) \<and>
      (case GetIPv6Set e of Inl err \<Rightarrow> True | Inr ps \<Rightarrow> list_all (\<lambda>p. \<not> Is4 p) ps))"

subsection \<open>The address trie of the specification\<close>

unbundle bit_operations_syntax

datatype trie = Empty | Leaf mmdbtype | Node trie trie

fun trie_insert :: "bool list \<Rightarrow> mmdbtype \<Rightarrow> trie \<Rightarrow> trie"
  \<comment> \<open>Modelled from the spec: \<open>Tree.Insert\<close> of mmdbwriter is not part of the plugin. Section 4.3:
      walk the prefix's bits from the most significant one, descend into the matching child
      and create internal nodes as needed; when the prefix is exhausted the subtree there
      becomes a single leaf; an existing leaf on the way is split, its other half kept.\<close>
  where
  "trie_insert [] v t = Leaf v"
| "trie_insert (b # bs) v Empty =
     (if b then Node Empty (trie_insert bs v Empty) else Node (trie_insert bs v Empty) Empty)"
| "trie_insert (b # bs) v (Leaf x) =
     (if b then Node (Leaf x) (trie_insert bs v (Leaf x))
      else Node (trie_insert bs v (Leaf x)) (Leaf x))"
| "trie_insert (b # bs) v (Node l r) =
     (if b then Node l (trie_insert bs v r) else Node (trie_insert bs v l) r)"

fun trie_lookup :: "trie \<Rightarrow> bool list \<Rightarrow> mmdbtype option"
  \<comment> \<open>Modelled from the spec: resolving an address follows its bits down to a leaf; an empty
      place means "no match".\<close>
  where
  "trie_lookup Empty bs = None"
| "trie_lookup (Leaf x) bs = Some x"
| "trie_lookup (Node l r) [] = None"
| "trie_lookup (Node l r) (b # bs) = (if b then trie_lookup r bs else trie_lookup l bs)"

text \<open>The bits of an address, most significant first.\<close>

definition bitsOf :: "'a::len word \<Rightarrow> bool list" where
  "bitsOf w = map (\<lambda>i. bit w (LENGTH('a) - 1 - i)) [0..<LENGTH('a)]"

text \<open>
  The bit path of a prefix and of an address in a tree whose IPv4 addresses live below the
  path \<open>root\<close> (empty in a 32-bit tree, 96 bits long in a 128-bit one).
\<close>

fun prefixBits :: "bool list \<Rightarrow> Prefix \<Rightarrow> bool list"
  \<comment> \<open>Modelled from the spec: section 4.3, the address width of the tree.\<close>
  where
  "prefixBits root (Prefix (Addr4 a) n) = root @ take n (bitsOf a)"
| "prefixBits root (Prefix (Addr6 a) n) = take n (bitsOf a)"

fun addrBits :: "bool list \<Rightarrow> Addr \<Rightarrow> bool list"
  \<comment> \<open>Modelled from the spec: section 4.3, the address width of the tree.\<close>
  where
  "addrBits root (Addr4 a) = root @ bitsOf a"
| "addrBits root (Addr6 a) = bitsOf a"

definition trieOf :: "bool list \<Rightarrow> Tree \<Rightarrow> trie"
  \<comment> \<open>Modelled from the spec: the trie that the recorded insertions build, in their order.\<close>
  where
  "trieOf root w = foldl (\<lambda>t (p, v). trie_insert (prefixBits root p) v t) Empty (inserted w)"

definition resolve :: "bool list \<Rightarrow> Tree \<Rightarrow> Addr \<Rightarrow> mmdbtype option"
  \<comment> \<open>Modelled from the spec: the record an address resolves to in the written database.\<close>
  where
  "resolve root w a = trie_lookup (trieOf root w) (addrBits root a)"

definition covers :: "bool list \<Rightarrow> Prefix \<Rightarrow> Addr \<Rightarrow> bool"
  \<comment> \<open>Modelled from the spec: an address lies in the region of a prefix when its bit path
      starts with the bit path of the prefix.\<close>
  where
  "covers root p a =
     (take (length (prefixBits root p)) (addrBits root a) = prefixBits root p)"

definition lastWrite :: "bool list \<Rightarrow> (Prefix \<times> mmdbtype) list \<Rightarrow> Addr \<Rightarrow> mmdbtype option"
  \<comment> \<open>Modelled from the spec: the overlap policy of section 4.3 in its own words. Going
      through the insertions in their order, each one that covers the address overwrites
      what the address resolved to before; an address that none covers has no match.\<close>
  where
  "lastWrite root ins a =
     foldl (\<lambda>r (p, v). if covers root p a then Some v else r) None ins"

text \<open>
  The insertions that the aggregate loop makes for a list of labels: label after label in the
  order of the list, each label's prefixes in the order of \<open>prefixes\<close>, all with the record
  of that label. A label that the container does not have brings none.
\<close>

definition insertionsOf ::
  "maxmindMMDBOut \<Rightarrow> Container \<Rightarrow> string list \<Rightarrow> (Prefix \<times> mmdbtype) list" where
  "insertionsOf m container list =
     concat (map (\<lambda>name.
        case GetEntry container name of
          None \<Rightarrow> []
        | Some entry \<Rightarrow>
            (case selectPrefixes m entry of
               Inl err \<Rightarrow> []
             | Inr prefixes \<Rightarrow> map (\<lambda>prefix. (prefix, countryRecord name)) prefixes)) list)"

text \<open>\<open>netip.Prefix.Contains\<close> for IPv4: the address agrees with the prefix on its first n bits.\<close>

definition Contains4 :: "32 word \<Rightarrow> nat \<Rightarrow> 32 word \<Rightarrow> bool" where
  "Contains4 p n a = (n \<le> 32 \<and> drop_bit (32 - n) (a XOR p) = 0)"

subsection \<open>Example inputs\<close>

text \<open>
  The examples use labels made of ASCII characters. On such strings the three functions of
  package \<open>strings\<close> do what the following ones do: trim the six ASCII white-space bytes,
  and change the case of the letters a-z or A-Z. They stand for the library in the example
  environment only.
\<close>

definition isSpace :: "char \<Rightarrow> bool" where
  "isSpace c = (c = CHR 0x09 \<or> c = CHR 0x0A \<or> c = CHR 0x0B \<or> c = CHR 0x0C \<or> c = CHR 0x0D
     \<or> c = CHR '' '')"

definition asciiTrimSpace :: "string \<Rightarrow> string" where
  "asciiTrimSpace s = rev (dropWhile isSpace (rev (dropWhile isSpace s)))"

definition upperChar :: "char \<Rightarrow> char" where
  "upperChar c = (if CHR ''a'' \<le> c \<and> c \<le> CHR ''z'' then char_of (of_char c - (32::nat)) else c)"

definition lowerChar :: "char \<Rightarrow> char" where
  "lowerChar c = (if CHR ''A'' \<le> c \<and> c \<le> CHR ''Z'' then char_of (of_char c + (32::nat)) else c)"

definition asciiToUpper :: "string \<Rightarrow> string" where
  "asciiToUpper s = map upperChar s"

definition asciiToLower :: "string \<Rightarrow> string" where
  "asciiToLower s = map lowerChar s"

definition exConfig :: maxmindMMDBOut where
  "exConfig = \<lparr>Type = ''maxmindMMDB'', Action = ''output'',
     Description = ''Convert data to MaxMind mmdb database format'',
     OutputName = ''Country.mmdb'', OutputDir = ''output/mmdb'',
     Want = [], Exclude = [], OneFilePerList = False, OnlyIPType = []\<rparr>"

definition exEnv :: Env where
  "exEnv = \<lparr>MkdirAll_err = (\<lambda>s d. None), New_err = (\<lambda>options. None),
     Insert_err = (\<lambda>w p v. None), Create_err = (\<lambda>s p. None), WriteTo_err = (\<lambda>s w. None),
     Join = (\<lambda>d f. d @ ''/'' @ f),
     TrimSpace = asciiTrimSpace, ToUpper = asciiToUpper, ToLower = asciiToLower\<rparr>"

definition failEnv :: Env where
  "failEnv = exEnv\<lparr>Insert_err :=
     (\<lambda>w p v. if v = countryRecord ''JP'' then Some (External ''insert failed'') else None)\<rparr>"

text \<open>The writers that \<open>createWriter\<close> returns in the example environment.\<close>

definition exWriter :: Tree where
  "exWriter = \<lparr>opts = \<lparr>DatabaseType = ''GeoIP2-Country'',
       OptDescription = [(''en'', ''GeoIP2 Country database converted by geoip tool'')],
       IPVersion = 6, RecordSize = 28, IncludeReservedNetworks = True\<rparr>,
     inserted = []\<rparr>"

definition exWriter4 :: Tree where
  "exWriter4 = exWriter\<lparr>opts := (opts exWriter)\<lparr>IPVersion := 4\<rparr>\<rparr>"

text \<open>The tree that the aggregate run over \<open>abContainer\<close> (below) writes.\<close>

definition abWriter :: Tree where
  "abWriter = exWriter\<lparr>inserted :=
     [(Prefix (Addr4 0x0A000000) 8, countryRecord ''A''),
      (Prefix (Addr4 0x0A010000) 16, countryRecord ''B'')]\<rparr>"

definition exWorld :: world where
  "exWorld = \<lparr>dirs = {}, files = Map.empty, logs = []\<rparr>"

definition entryUS :: Entry where
  "entryUS = \<lparr>GetName = ''US'', GetIPv4Set = Inr [Prefix (Addr4 0xC0000200) 24],
     GetIPv6Set = Inr [Prefix (Addr6 0x20010DB8000000000000000000000000) 32]\<rparr>"

definition entryJP :: Entry where
  "entryJP = \<lparr>GetName = ''JP'', GetIPv4Set = Inr [Prefix (Addr4 0xCB007100) 24],
     GetIPv6Set = Inl (External ''entry JP has no ipv6 set'')\<rparr>"

definition entryCN :: Entry where
  "entryCN = \<lparr>GetName = ''CN'', GetIPv4Set = Inr [Prefix (Addr4 0xC6336400) 24],
     GetIPv6Set = Inl (External ''entry CN has no ipv6 set'')\<rparr>"

definition entryLower :: Entry where
  "entryLower = \<lparr>GetName = ''us'', GetIPv4Set = Inr [Prefix (Addr4 0xC0000200) 24],
     GetIPv6Set = Inl (External ''entry us has no ipv6 set'')\<rparr>"

definition entryEU :: Entry where
  "entryEU = \<lparr>GetName = ''EU'', GetIPv4Set = Inl (External ''entry EU has no ipv4 set''),
     GetIPv6Set = Inr [Prefix (Addr6 0x2A000000000000000000000000000000) 12]\<rparr>"

definition entryA :: Entry where
  "entryA = \<lparr>GetName = ''A'', GetIPv4Set = Inr [Prefix (Addr4 0x0A000000) 8],
     GetIPv6Set = Inl (External ''entry A has no ipv6 set'')\<rparr>"

definition entryB :: Entry where
  "entryB = \<lparr>GetName = ''B'', GetIPv4Set = Inr [Prefix (Addr4 0x0A010000) 16],
     GetIPv6Set = Inl (External ''entry B has no ipv6 set'')\<rparr>"

definition entryA16 :: Entry where
  "entryA16 = \<lparr>GetName = ''A'', GetIPv4Set = Inr [Prefix (Addr4 0x0A010000) 16],
     GetIPv6Set = Inl (External ''entry A has no ipv6 set'')\<rparr>"

definition entryB8 :: Entry where
  "entryB8 = \<lparr>GetName = ''B'', GetIPv4Set = Inr [Prefix (Addr4 0x0A000000) 8],
     GetIPv6Set = Inl (External ''entry B has no ipv6 set'')\<rparr>"

definition exContainer :: Container where
  "exContainer = \<lparr>Loop = [entryUS, entryJP, entryCN],
     GetEntry = [''US'' \<mapsto> entryUS, ''JP'' \<mapsto> entryJP, ''CN'' \<mapsto> entryCN]\<rparr>"

definition exContainer' :: Container where
  "exContainer' = \<lparr>Loop = [entryCN, entryUS, entryJP],
     GetEntry = [''US'' \<mapsto> entryUS, ''JP'' \<mapsto> entryJP, ''CN'' \<mapsto> entryCN]\<rparr>"

definition lowerContainer :: Container where
  "lowerContainer = \<lparr>Loop = [entryLower, entryUS],
     GetEntry = [''us'' \<mapsto> entryLower, ''US'' \<mapsto> entryUS]\<rparr>"

definition abContainer :: Container where
  "abContainer = \<lparr>Loop = [entryB, entryA], GetEntry = [''A'' \<mapsto> entryA, ''B'' \<mapsto> entryB]\<rparr>"

text \<open>The same two prefixes with the labels exchanged: the wider prefix is inserted last.\<close>

definition baContainer :: Container where
  "baContainer = \<lparr>Loop = [entryB8, entryA16],
     GetEntry = [''A'' \<mapsto> entryA16, ''B'' \<mapsto> entryB8]\<rparr>"

definition baWriter :: Tree where
  "baWriter = exWriter\<lparr>inserted :=
     [(Prefix (Addr4 0x0A010000) 16, countryRecord ''A''),
      (Prefix (Addr4 0x0A000000) 8, countryRecord ''B'')]\<rparr>"

section \<open>The Selector\<close>

lemma index_excludeLoop:
  "index (excludeLoop env xs em) k = (index em k \<or> k \<in> set (normalized env xs))"
  by (induction xs arbitrary: em) (auto simp: index_def Let_def normalized_def)

lemma index_excludeMap:
  "index (excludeLoop env xs Map.empty) k = (k \<in> set (normalized env xs))"
  by (simp add: index_excludeLoop) (simp add: index_def)

lemma wantLoop_eq:
  "wantLoop env em ws acc = acc @ filter (\<lambda>w. \<not> index em w) (normalized env ws)"
  by (induction ws arbitrary: acc) (auto simp: Let_def normalized_def)

lemma containerLoop_eq:
  "containerLoop em es acc = acc @ filter (\<lambda>n. \<not> index em n) (map GetName es)"
  by (induction es arbitrary: acc) (auto simp: Let_def)

text \<open>
  The three loops in closed form. The test \<open>len(wantList) > 0\<close> is made after the excluded
  labels have been dropped from the want-list.
\<close>

lemma filterAndSortList_eq:
  "filterAndSortList m env c =
     (if wanted m env \<noteq> [] then sort (wanted m env) else sort (available m env c))"
  by (simp add: filterAndSortList_def Let_def wantLoop_eq containerLoop_eq index_excludeMap
      wanted_def available_def)

text \<open>Evaluating the library functions of the example environment.\<close>

lemma exEnv_strings:
  "TrimSpace exEnv = asciiTrimSpace" "ToUpper exEnv = asciiToUpper" "ToLower exEnv = asciiToLower"
  by (simp_all add: exEnv_def)

text \<open>
  C2, as the code has it. The result is sorted ascending. When some normalised want entry
  survives the exclusion, the result holds exactly the surviving want entries, each as often
  as the want-list names it (nothing removes duplicates). When the normalised want-list is
  empty, the result holds the names of the container's entries that are not excluded.
\<close>

theorem filterAndSortList_selects:
  "sorted (filterAndSortList m env c) \<and>
   (wanted m env \<noteq> [] \<longrightarrow> mset (filterAndSortList m env c) = mset (wanted m env)) \<and>
   (normalized env (Want m) = [] \<longrightarrow>
      mset (filterAndSortList m env c) = mset (available m env c))"
  by (simp add: filterAndSortList_eq wanted_def)

theorem filterAndSortList_selects_witness:
  "wanted (exConfig\<lparr>Want := ['' us'', ''cn '', ''jp'', ''US''], Exclude := [''Jp'']\<rparr>) exEnv
     \<noteq> [] \<and>
   normalized exEnv (Want (exConfig\<lparr>Exclude := [''Jp'']\<rparr>)) = [] \<and>
   filterAndSortList (exConfig\<lparr>Want := ['' us'', ''cn '', ''jp'', ''US''], Exclude := [''Jp'']\<rparr>)
     exEnv exContainer = [''CN'', ''US'', ''US''] \<and>
   mset (filterAndSortList (exConfig\<lparr>Exclude := [''Jp'']\<rparr>) exEnv exContainer) =
     mset [''US'', ''CN'']"
proof -
  let ?m = "exConfig\<lparr>Want := ['' us'', ''cn '', ''jp'', ''US''], Exclude := [''Jp'']\<rparr>"
  let ?n = "exConfig\<lparr>Exclude := [''Jp'']\<rparr>"
  have w: "wanted ?m exEnv = [''US'', ''CN'', ''US'']"
    unfolding wanted_def normalized_def exConfig_def exEnv_strings by code_simp
  have n: "normalized exEnv (Want ?n) = []"
    by (simp add: normalized_def exConfig_def)
  have a: "available ?n exEnv exContainer = [''US'', ''CN'']"
    unfolding available_def normalized_def exConfig_def exContainer_def
      entryUS_def entryJP_def entryCN_def exEnv_strings by code_simp
  have s: "sorted [''CN'', ''US'', ''US'']"
    by code_simp
  have "sorted (filterAndSortList ?m exEnv exContainer) \<and>
        mset (filterAndSortList ?m exEnv exContainer) = mset [''CN'', ''US'', ''US'']"
    using filterAndSortList_selects [of ?m exEnv exContainer] by (simp add: w)
  then have "sort [''CN'', ''US'', ''US''] = filterAndSortList ?m exEnv exContainer"
    by (intro properties_for_sort) simp_all
  then have "filterAndSortList ?m exEnv exContainer = [''CN'', ''US'', ''US'']"
    using sorted_sort_id [OF s] by simp
  moreover have "mset (filterAndSortList ?n exEnv exContainer) = mset [''US'', ''CN'']"
    using filterAndSortList_selects [of ?n exEnv exContainer] n a by simp
  ultimately show ?thesis using w n by simp
qed

text \<open>
  The claim as written fails twice: a label wanted twice is returned twice, and a want-list
  whose labels are all excluded makes the function return the labels of the container.
\<close>

theorem filterAndSortList_selects_counterexample:
  "normalized exEnv (Want (exConfig\<lparr>Want := [''US'', ''us'']\<rparr>)) \<noteq> [] \<and>
   \<not> distinct (filterAndSortList (exConfig\<lparr>Want := [''US'', ''us'']\<rparr>) exEnv exContainer) \<and>
   normalized exEnv (Want (exConfig\<lparr>Want := [''JP''], Exclude := [''JP'']\<rparr>)) \<noteq> [] \<and>
   filterAndSortList (exConfig\<lparr>Want := [''JP''], Exclude := [''JP'']\<rparr>) exEnv exContainer
     = [''CN'', ''US'']"
  unfolding normalized_def exConfig_def exContainer_def entryUS_def entryJP_def entryCN_def
    exEnv_strings
  by code_simp

text \<open>
  C8. The function reads the two lists of the configuration and the entries of the container
  and returns a sorted list; it writes to nothing but its own local variables, so it has
  neither a world argument nor a world result. The one input whose order may differ between
  two runs is the enumeration \<open>Loop\<close>, which the container feeds from a Go map: two
  enumerations of the same entries give the same result.
\<close>

theorem filterAndSortList_deterministic:
  assumes "mset (Loop c) = mset (Loop c')"
  shows "filterAndSortList m env c = filterAndSortList m env c' \<and>
         sorted (filterAndSortList m env c)"
proof -
  have "mset (available m env c) = mset (available m env c')"
    unfolding available_def using assms by (metis mset_filter mset_map)
  then have "sort (available m env c) = sort (available m env c')"
    by (simp add: properties_for_sort)
  then show ?thesis by (simp add: filterAndSortList_eq)
qed

theorem filterAndSortList_deterministic_witness:
  "mset (Loop exContainer) = mset (Loop exContainer') \<and>
   Loop exContainer \<noteq> Loop exContainer' \<and>
   filterAndSortList exConfig exEnv exContainer = filterAndSortList exConfig exEnv exContainer' \<and>
   sorted (filterAndSortList exConfig exEnv exContainer)"
proof -
  have h: "mset (Loop exContainer) = mset (Loop exContainer')"
    by (simp add: exContainer_def exContainer'_def)
  have d: "Loop exContainer \<noteq> Loop exContainer'"
    by (simp add: exContainer_def exContainer'_def entryUS_def entryCN_def)
  from filterAndSortList_deterministic [OF h, of exConfig exEnv] h d show ?thesis by blast
qed

text \<open>
  C9. With an empty normalised want-list the result is made of the entries' names as
  \<open>GetName\<close> returns them, and a name is left out exactly when it is itself a normalised
  exclude entry: an entry whose name differs from every normalised exclude entry is in the
  result, unchanged, whatever a case-insensitive comparison would say.
\<close>

theorem filterAndSortList_raw_names:
  assumes "normalized env (Want m) = []"
  shows "mset (filterAndSortList m env c) =
           mset (filter (\<lambda>n. n \<notin> set (normalized env (Exclude m))) (map GetName (Loop c))) \<and>
         (\<forall>e \<in> set (Loop c). GetName e \<notin> set (normalized env (Exclude m)) \<longrightarrow>
            GetName e \<in> set (filterAndSortList m env c))"
proof -
  have eq: "filterAndSortList m env c = sort (available m env c)"
    using assms by (simp add: filterAndSortList_eq wanted_def)
  then show ?thesis by (auto simp: available_def)
qed

theorem filterAndSortList_raw_names_witness:
  "normalized exEnv (Want (exConfig\<lparr>Exclude := [''us'']\<rparr>)) = [] \<and>
   normalized exEnv (Exclude (exConfig\<lparr>Exclude := [''us'']\<rparr>)) = [''US''] \<and>
   entryLower \<in> set (Loop lowerContainer) \<and>
   GetName entryLower = ''us'' \<and>
   ''us'' \<in> set (filterAndSortList (exConfig\<lparr>Exclude := [''us'']\<rparr>) exEnv lowerContainer) \<and>
   ''US'' \<notin> set (filterAndSortList (exConfig\<lparr>Exclude := [''us'']\<rparr>) exEnv lowerContainer)"
proof -
  let ?m = "exConfig\<lparr>Exclude := [''us'']\<rparr>"
  have h: "normalized exEnv (Want ?m) = []"
    by (simp add: normalized_def exConfig_def)
  have x: "normalized exEnv [''us''] = [''US'']"
    unfolding normalized_def exEnv_strings by code_simp
  have x': "Exclude ?m = [''us'']"
    by simp
  have l: "Loop lowerContainer = [entryLower, entryUS]"
    by (simp add: lowerContainer_def)
  have n: "GetName entryLower = ''us''" "GetName entryUS = ''US''"
    by (simp_all add: entryLower_def entryUS_def)
  have "mset (filterAndSortList ?m exEnv lowerContainer) = mset [''us'']"
    using filterAndSortList_raw_names [OF h, of lowerContainer] by (simp add: x x' l n)
  then have "set (filterAndSortList ?m exEnv lowerContainer) = {''us''}"
    by (metis mset_eq_setD list.simps(15) list.set(1))
  then show ?thesis using h x x' l n by simp
qed

section \<open>Building a writer\<close>

lemma insertLoop_Inr:
  "insertLoop env w v ps = Inr w' \<Longrightarrow>
     inserted w' = inserted w @ map (\<lambda>p. (p, v)) ps \<and> opts w' = opts w"
  by (induction ps arbitrary: w) (auto simp: Insert_def split: option.splits sum.splits)

lemma addEntryToWriter_Inr:
  "addEntryToWriter m env w e l = Inr w' \<Longrightarrow>
     \<exists>ps. selectPrefixes m e = Inr ps \<and>
          inserted w' = inserted w @ map (\<lambda>p. (p, countryRecord l)) ps \<and> opts w' = opts w"
  by (auto simp: addEntryToWriter_def split: sum.splits dest: insertLoop_Inr)

lemma IPv4_neq_IPv6: "IPv4 \<noteq> IPv6"
  by (simp add: IPv4_def IPv6_def)

text \<open>
  C10. A writer that \<open>createWriter\<close> returns has the database type GeoIP2-Country, record
  size 28 and reserved networks included, whatever the configuration; adding an entry leaves
  the options alone and inserts, for each prefix, the same two-field record built from the
  label only.
\<close>

theorem writer_options_and_record:
  "(createWriter m env = Inr w \<longrightarrow>
      DatabaseType (opts w) = ''GeoIP2-Country'' \<and> RecordSize (opts w) = 28 \<and>
      IncludeReservedNetworks (opts w) = True \<and> inserted w = []) \<and>
   (addEntryToWriter m env w0 e label = Inr w' \<longrightarrow>
      opts w' = opts w0 \<and>
      (\<exists>ps. selectPrefixes m e = Inr ps \<and>
         inserted w' = inserted w0 @
           map (\<lambda>p. (p, Map [(''country'', Map [(''iso_code'', String label)]),
                             (''registered_country'', Map [(''iso_code'', String label)])])) ps))"
proof (intro conjI impI)
  assume "addEntryToWriter m env w0 e label = Inr w'"
  from addEntryToWriter_Inr [OF this]
  show "opts w' = opts w0"
    and "\<exists>ps. selectPrefixes m e = Inr ps \<and>
         inserted w' = inserted w0 @
           map (\<lambda>p. (p, Map [(''country'', Map [(''iso_code'', String label)]),
                             (''registered_country'', Map [(''iso_code'', String label)])])) ps"
    by (auto simp: countryRecord_def)
qed (auto simp: createWriter_def Let_def split: option.splits)

theorem writer_options_and_record_witness:
  "createWriter exConfig exEnv = Inr exWriter \<and>
   DatabaseType (opts exWriter) = ''GeoIP2-Country'' \<and> RecordSize (opts exWriter) = 28 \<and>
   IncludeReservedNetworks (opts exWriter) = True \<and>
   addEntryToWriter exConfig exEnv exWriter entryUS ''US'' =
     Inr (exWriter\<lparr>inserted :=
       [(Prefix (Addr4 0xC0000200) 24, countryRecord ''US''),
        (Prefix (Addr6 0x20010DB8000000000000000000000000) 32, countryRecord ''US'')]\<rparr>) \<and>
   countryRecord ''US'' = Map [(''country'', Map [(''iso_code'', String ''US'')]),
                               (''registered_country'', Map [(''iso_code'', String ''US'')])]"
proof -
  have c: "createWriter exConfig exEnv = Inr exWriter"
    by (simp add: createWriter_def exConfig_def exEnv_def exWriter_def IPv4_def)
  have a: "addEntryToWriter exConfig exEnv exWriter entryUS ''US'' =
     Inr (exWriter\<lparr>inserted :=
       [(Prefix (Addr4 0xC0000200) 24, countryRecord ''US''),
        (Prefix (Addr6 0x20010DB8000000000000000000000000) 32, countryRecord ''US'')]\<rparr>)"
    by (simp add: addEntryToWriter_def selectPrefixes_def Insert_def exConfig_def exEnv_def
        exWriter_def entryUS_def IPv4_def IPv6_def)
  have r: "countryRecord ''US'' = Map [(''country'', Map [(''iso_code'', String ''US'')]),
                               (''registered_country'', Map [(''iso_code'', String ''US'')])]"
    by (simp add: countryRecord_def)
  from writer_options_and_record [of exConfig exEnv exWriter exWriter entryUS "''US''"] c
  have "DatabaseType (opts exWriter) = ''GeoIP2-Country'' \<and> RecordSize (opts exWriter) = 28 \<and>
      IncludeReservedNetworks (opts exWriter) = True"
    by blast
  with c a r show ?thesis by blast
qed

text \<open>
  C5. With \<open>onlyIPType\<close> set to one family, \<open>addEntryToWriter\<close> does not look at the other
  family's accessor at all: whatever that accessor returns, prefixes or an error, the result
  is the same, and every prefix it inserts comes from the selected family's set. The writer
  is 32 bits wide exactly for ipv4.
\<close>

theorem ip_scope_filtering:
  assumes "wellformedEntry e"
  shows "(OnlyIPType m = IPv4 \<longrightarrow>
            (\<forall>x. addEntryToWriter m env w (e\<lparr>GetIPv6Set := x\<rparr>) label =
                 addEntryToWriter m env w e label) \<and>
            (\<forall>w'. addEntryToWriter m env w e label = Inr w' \<longrightarrow>
                 list_all (\<lambda>(p, v). Is4 p) (drop (length (inserted w)) (inserted w'))) \<and>
            (\<forall>w0. createWriter m env = Inr w0 \<longrightarrow> IPVersion (opts w0) = 4)) \<and>
         (OnlyIPType m = IPv6 \<longrightarrow>
            (\<forall>x. addEntryToWriter m env w (e\<lparr>GetIPv4Set := x\<rparr>) label =
                 addEntryToWriter m env w e label) \<and>
            (\<forall>w'. addEntryToWriter m env w e label = Inr w' \<longrightarrow>
                 list_all (\<lambda>(p, v). \<not> Is4 p) (drop (length (inserted w)) (inserted w'))) \<and>
            (\<forall>w0. createWriter m env = Inr w0 \<longrightarrow> IPVersion (opts w0) = 6))"
proof (intro conjI impI allI)
  fix w' assume 4: "OnlyIPType m = IPv4" and ok: "addEntryToWriter m env w e label = Inr w'"
  from addEntryToWriter_Inr [OF ok] obtain ps where
    ps: "selectPrefixes m e = Inr ps"
    and ins: "inserted w' = inserted w @ map (\<lambda>p. (p, countryRecord label)) ps"
    by blast
  from ps 4 have "GetIPv4Set e = Inr ps"
    by (auto simp: selectPrefixes_def split: sum.splits)
  with assms have "list_all Is4 ps"
    by (simp add: wellformedEntry_def)
  then show "list_all (\<lambda>(p, v). Is4 p) (drop (length (inserted w)) (inserted w'))"
    by (simp add: ins list_all_iff)
next
  fix w' assume 6: "OnlyIPType m = IPv6" and ok: "addEntryToWriter m env w e label = Inr w'"
  from addEntryToWriter_Inr [OF ok] obtain ps where
    ps: "selectPrefixes m e = Inr ps"
    and ins: "inserted w' = inserted w @ map (\<lambda>p. (p, countryRecord label)) ps"
    by blast
  from ps 6 have "GetIPv6Set e = Inr ps"
    using IPv4_neq_IPv6 by (auto simp: selectPrefixes_def split: sum.splits)
  with assms have "list_all (\<lambda>p. \<not> Is4 p) ps"
    by (simp add: wellformedEntry_def)
  then show "list_all (\<lambda>(p, v). \<not> Is4 p) (drop (length (inserted w)) (inserted w'))"
    by (simp add: ins list_all_iff)
qed (use IPv4_neq_IPv6 in
      \<open>auto simp: addEntryToWriter_def selectPrefixes_def createWriter_def Let_def
         split: option.splits\<close>)

theorem ip_scope_filtering_witness:
  "wellformedEntry entryUS \<and>
   GetIPv4Set entryUS = Inr [Prefix (Addr4 0xC0000200) 24] \<and>
   GetIPv6Set entryUS = Inr [Prefix (Addr6 0x20010DB8000000000000000000000000) 32] \<and>
   addEntryToWriter (exConfig\<lparr>OnlyIPType := IPv4\<rparr>) exEnv exWriter4 entryUS ''US'' =
     Inr (exWriter4\<lparr>inserted := [(Prefix (Addr4 0xC0000200) 24, countryRecord ''US'')]\<rparr>) \<and>
   addEntryToWriter (exConfig\<lparr>OnlyIPType := IPv4\<rparr>) exEnv exWriter4
       (entryUS\<lparr>GetIPv6Set := Inl (External ''no ipv6 set'')\<rparr>) ''US'' =
     Inr (exWriter4\<lparr>inserted := [(Prefix (Addr4 0xC0000200) 24, countryRecord ''US'')]\<rparr>) \<and>
   createWriter (exConfig\<lparr>OnlyIPType := IPv4\<rparr>) exEnv = Inr exWriter4 \<and>
   IPVersion (opts exWriter4) = 4 \<and>
   addEntryToWriter (exConfig\<lparr>OnlyIPType := IPv6\<rparr>) exEnv exWriter entryUS ''US'' =
     Inr (exWriter\<lparr>inserted :=
       [(Prefix (Addr6 0x20010DB8000000000000000000000000) 32, countryRecord ''US'')]\<rparr>) \<and>
   addEntryToWriter (exConfig\<lparr>OnlyIPType := IPv6\<rparr>) exEnv exWriter
       (entryUS\<lparr>GetIPv4Set := Inl (External ''no ipv4 set'')\<rparr>) ''US'' =
     Inr (exWriter\<lparr>inserted :=
       [(Prefix (Addr6 0x20010DB8000000000000000000000000) 32, countryRecord ''US'')]\<rparr>) \<and>
   createWriter (exConfig\<lparr>OnlyIPType := IPv6\<rparr>) exEnv = Inr exWriter \<and>
   IPVersion (opts exWriter) = 6"
proof -
  let ?m = "exConfig\<lparr>OnlyIPType := IPv4\<rparr>"
  let ?n = "exConfig\<lparr>OnlyIPType := IPv6\<rparr>"
  have wf: "wellformedEntry entryUS"
    by (simp add: wellformedEntry_def entryUS_def)
  have m: "OnlyIPType ?m = IPv4" "OnlyIPType ?n = IPv6"
    by simp_all
  have a: "addEntryToWriter ?m exEnv exWriter4 entryUS ''US'' =
     Inr (exWriter4\<lparr>inserted := [(Prefix (Addr4 0xC0000200) 24, countryRecord ''US'')]\<rparr>)"
    by (simp add: addEntryToWriter_def selectPrefixes_def Insert_def exEnv_def
        exWriter4_def exWriter_def entryUS_def)
  have c: "createWriter ?m exEnv = Inr exWriter4"
    by (simp add: createWriter_def exConfig_def exEnv_def exWriter4_def exWriter_def)
  have a6: "addEntryToWriter ?n exEnv exWriter entryUS ''US'' =
     Inr (exWriter\<lparr>inserted :=
       [(Prefix (Addr6 0x20010DB8000000000000000000000000) 32, countryRecord ''US'')]\<rparr>)"
    by (simp add: addEntryToWriter_def selectPrefixes_def Insert_def exEnv_def
        exWriter_def entryUS_def IPv4_def IPv6_def)
  have c6: "createWriter ?n exEnv = Inr exWriter"
    by (simp add: createWriter_def exConfig_def exEnv_def exWriter_def IPv4_def IPv6_def)
  have g: "GetIPv4Set entryUS = Inr [Prefix (Addr4 0xC0000200) 24]"
    "GetIPv6Set entryUS = Inr [Prefix (Addr6 0x20010DB8000000000000000000000000) 32]"
    by (simp_all add: entryUS_def)
  note t = ip_scope_filtering [OF wf, of ?m exEnv exWriter4 "''US''"]
  note u = ip_scope_filtering [OF wf, of ?n exEnv exWriter "''US''"]
  from t m have i: "addEntryToWriter ?m exEnv exWriter4
       (entryUS\<lparr>GetIPv6Set := Inl (External ''no ipv6 set'')\<rparr>) ''US'' =
     addEntryToWriter ?m exEnv exWriter4 entryUS ''US''"
    by blast
  from t m c have v: "IPVersion (opts exWriter4) = 4"
    by blast
  from u m have i6: "addEntryToWriter ?n exEnv exWriter
       (entryUS\<lparr>GetIPv4Set := Inl (External ''no ipv4 set'')\<rparr>) ''US'' =
     addEntryToWriter ?n exEnv exWriter entryUS ''US''"
    by blast
  from u m c6 have v6: "IPVersion (opts exWriter) = 6"
    by blast
  from wf g a i c v a6 i6 c6 v6 show ?thesis by simp
qed

text \<open>
  C4, as the code has it. With \<open>onlyIPType\<close> set, an error of the selected accessor is
  returned to the caller. With \<open>onlyIPType\<close> unset, the \<open>default\<close> branch tests
  \<open>err == nil\<close> and goes on: a failing accessor contributes no prefixes, the prefixes of the
  other family are still inserted, and no error is returned on its account.
\<close>

theorem accessor_errors:
  "(OnlyIPType m = IPv4 \<and> GetIPv4Set e = Inl err \<longrightarrow>
      addEntryToWriter m env w e label = Inl err) \<and>
   (OnlyIPType m = IPv6 \<and> GetIPv6Set e = Inl err \<longrightarrow>
      addEntryToWriter m env w e label = Inl err) \<and>
   (OnlyIPType m \<noteq> IPv4 \<and> OnlyIPType m \<noteq> IPv6 \<and> GetIPv4Set e = Inl err \<longrightarrow>
      addEntryToWriter m env w e label =
        insertLoop env w (countryRecord label)
          (case GetIPv6Set e of Inl err6 \<Rightarrow> [] | Inr ipv6Set \<Rightarrow> ipv6Set)) \<and>
   (OnlyIPType m \<noteq> IPv4 \<and> OnlyIPType m \<noteq> IPv6 \<and> GetIPv6Set e = Inl err \<longrightarrow>
      addEntryToWriter m env w e label =
        insertLoop env w (countryRecord label)
          (case GetIPv4Set e of Inl err4 \<Rightarrow> [] | Inr ipv4Set \<Rightarrow> ipv4Set))"
  using IPv4_neq_IPv6
  by (auto simp: addEntryToWriter_def selectPrefixes_def Let_def split: sum.splits)

theorem accessor_errors_witness:
  "GetIPv4Set entryEU = Inl (External ''entry EU has no ipv4 set'') \<and>
   GetIPv6Set entryJP = Inl (External ''entry JP has no ipv6 set'') \<and>
   addEntryToWriter (exConfig\<lparr>OnlyIPType := IPv4\<rparr>) exEnv exWriter4 entryEU ''EU'' =
     Inl (External ''entry EU has no ipv4 set'') \<and>
   addEntryToWriter (exConfig\<lparr>OnlyIPType := IPv6\<rparr>) exEnv exWriter entryJP ''JP'' =
     Inl (External ''entry JP has no ipv6 set'') \<and>
   addEntryToWriter exConfig exEnv exWriter entryEU ''EU'' =
     Inr (exWriter\<lparr>inserted :=
       [(Prefix (Addr6 0x2A000000000000000000000000000000) 12, countryRecord ''EU'')]\<rparr>) \<and>
   addEntryToWriter exConfig exEnv exWriter entryJP ''JP'' =
     Inr (exWriter\<lparr>inserted := [(Prefix (Addr4 0xCB007100) 24, countryRecord ''JP'')]\<rparr>)"
proof -
  let ?m = "exConfig\<lparr>OnlyIPType := IPv4\<rparr>"
  let ?n = "exConfig\<lparr>OnlyIPType := IPv6\<rparr>"
  let ?e4 = "External ''entry EU has no ipv4 set''"
  let ?e6 = "External ''entry JP has no ipv6 set''"
  have e: "GetIPv6Set entryJP = Inl ?e6" "GetIPv4Set entryJP = Inr [Prefix (Addr4 0xCB007100) 24]"
    "GetIPv4Set entryEU = Inl ?e4"
    "GetIPv6Set entryEU = Inr [Prefix (Addr6 0x2A000000000000000000000000000000) 12]"
    by (simp_all add: entryJP_def entryEU_def)
  have m: "OnlyIPType ?m = IPv4" "OnlyIPType ?n = IPv6"
    "OnlyIPType exConfig \<noteq> IPv4" "OnlyIPType exConfig \<noteq> IPv6"
    by (simp_all add: exConfig_def IPv4_def IPv6_def)
  have i: "insertLoop exEnv exWriter (countryRecord ''JP'') [Prefix (Addr4 0xCB007100) 24] =
     Inr (exWriter\<lparr>inserted := [(Prefix (Addr4 0xCB007100) 24, countryRecord ''JP'')]\<rparr>)"
    "insertLoop exEnv exWriter (countryRecord ''EU'')
       [Prefix (Addr6 0x2A000000000000000000000000000000) 12] =
     Inr (exWriter\<lparr>inserted :=
       [(Prefix (Addr6 0x2A000000000000000000000000000000) 12, countryRecord ''EU'')]\<rparr>)"
    by (simp_all add: Insert_def exEnv_def exWriter_def)
  from accessor_errors [of ?m entryEU ?e4 exEnv exWriter4 "''EU''"] e m
  have 1: "addEntryToWriter ?m exEnv exWriter4 entryEU ''EU'' = Inl ?e4"
    by blast
  from accessor_errors [of ?n entryJP ?e6 exEnv exWriter "''JP''"] e m
  have 2: "addEntryToWriter ?n exEnv exWriter entryJP ''JP'' = Inl ?e6"
    by blast
  from accessor_errors [of exConfig entryEU ?e4 exEnv exWriter "''EU''"] e m
  have 3: "addEntryToWriter exConfig exEnv exWriter entryEU ''EU'' =
     insertLoop exEnv exWriter (countryRecord ''EU'')
       (case GetIPv6Set entryEU of Inl err6 \<Rightarrow> [] | Inr ipv6Set \<Rightarrow> ipv6Set)"
    by blast
  from accessor_errors [of exConfig entryJP ?e6 exEnv exWriter "''JP''"] e m
  have 4: "addEntryToWriter exConfig exEnv exWriter entryJP ''JP'' =
     insertLoop exEnv exWriter (countryRecord ''JP'')
       (case GetIPv4Set entryJP of Inl err4 \<Rightarrow> [] | Inr ipv4Set \<Rightarrow> ipv4Set)"
    by blast
  from 1 2 3 4 e i show ?thesis by simp
qed

text \<open>
  The claim as written fails: in dual-stack mode an entry whose IPv6 accessor fails is added
  without error.
\<close>

theorem accessor_errors_counterexample:
  "OnlyIPType exConfig \<noteq> IPv4 \<and> OnlyIPType exConfig \<noteq> IPv6 \<and>
   GetIPv6Set entryJP = Inl (External ''entry JP has no ipv6 set'') \<and>
   addEntryToWriter exConfig exEnv exWriter entryJP ''JP'' =
     Inr (exWriter\<lparr>inserted := [(Prefix (Addr4 0xCB007100) 24, countryRecord ''JP'')]\<rparr>)"
  by (simp add: addEntryToWriter_def selectPrefixes_def Insert_def exConfig_def exEnv_def
      exWriter_def entryJP_def IPv4_def IPv6_def)

section \<open>The two output loops\<close>

lemma writeFile_None:
  "writeFile env w p s = (None, s') \<Longrightarrow>
     files s' = (files s)(p \<mapsto> Database w) \<and> logs s' = logs s \<and> dirs s' = dirs s"
  by (auto simp: writeFile_def Let_def split: option.splits)

lemma files_logf: "files (logf l s) = files s"
  by (simp add: logf_def)

lemma outputOneFilePerList_append:
  "outputOneFilePerList m env c (xs @ ys) s =
     (case outputOneFilePerList m env c xs s of
        (Some err, s1) \<Rightarrow> (Some err, s1)
      | (None, s1) \<Rightarrow> outputOneFilePerList m env c ys s1)"
  by (induction xs arbitrary: s)
     (auto simp: Let_def split: option.splits sum.splits prod.splits)

lemma addAllEntries_append:
  "addAllEntries m env c (xs @ ys) w s =
     (case addAllEntries m env c xs w s of
        (Inl err, s1) \<Rightarrow> (Inl err, s1)
      | (Inr w1, s1) \<Rightarrow> addAllEntries m env c ys w1 s1)"
  by (induction xs arbitrary: w s) (auto split: option.splits sum.splits prod.splits)

text \<open>Evaluating the example run of the per-label mode.\<close>

lemma ToLower_examples:
  "asciiToLower ''CN'' = ''cn''" "asciiToLower ''JP'' = ''jp''" "asciiToLower ''US'' = ''us''"
  "asciiToLower ''us'' = ''us''"
  by code_simp+

lemmas example_defs =
  exConfig_def exEnv_def failEnv_def exWorld_def exContainer_def entryUS_def entryJP_def
  entryCN_def createWriter_def addEntryToWriter_def selectPrefixes_def Insert_def
  writeFile_def logf_def countryRecord_def IPv4_def IPv6_def Let_def ToLower_examples

text \<open>
  C1, as the code has it. Both loops treat a label that \<open>GetEntry\<close> does not find in the
  same way: they log it and go on with the next label. Once the labels before it have been
  processed, the run continues with the labels after it from the same world plus one log
  line (and, in aggregate mode, the same writer); the per-label loop returns no error on
  its account.
\<close>

theorem missing_label_skipped:
  assumes "GetEntry c name = None"
  shows "(outputOneFilePerList m env c pre s = (None, s1) \<longrightarrow>
            outputOneFilePerList m env c (pre @ name # post) s =
            outputOneFilePerList m env c post (logf (EntryNotFound name) s1)) \<and>
         (addAllEntries m env c pre w s = (Inr w1, s1) \<longrightarrow>
            addAllEntries m env c (pre @ name # post) w s =
            addAllEntries m env c post w1 (logf (EntryNotFound name) s1))"
  using assms by (simp add: outputOneFilePerList_append addAllEntries_append)

theorem missing_label_skipped_witness:
  "GetEntry exContainer ''ZZ'' = None \<and>
   fst (outputOneFilePerList (exConfig\<lparr>OneFilePerList := True\<rparr>) exEnv exContainer [''US'']
          exWorld) = None \<and>
   fst (outputOneFilePerList (exConfig\<lparr>OneFilePerList := True\<rparr>) exEnv exContainer
          [''US'', ''ZZ''] exWorld) = None \<and>
   EntryNotFound ''ZZ'' \<in> set (logs (snd
       (outputOneFilePerList (exConfig\<lparr>OneFilePerList := True\<rparr>) exEnv exContainer
          [''US'', ''ZZ''] exWorld))) \<and>
   addAllEntries exConfig exEnv exContainer [''JP''] exWriter exWorld =
     (Inr (exWriter\<lparr>inserted := [(Prefix (Addr4 0xCB007100) 24, countryRecord ''JP'')]\<rparr>),
      exWorld) \<and>
   addAllEntries exConfig exEnv exContainer [''JP'', ''ZZ''] exWriter exWorld =
     (Inr (exWriter\<lparr>inserted := [(Prefix (Addr4 0xCB007100) 24, countryRecord ''JP'')]\<rparr>),
      logf (EntryNotFound ''ZZ'') exWorld)"
proof -
  let ?m = "exConfig\<lparr>OneFilePerList := True\<rparr>"
  let ?r = "outputOneFilePerList ?m exEnv exContainer [''US''] exWorld"
  let ?w = "exWriter\<lparr>inserted := [(Prefix (Addr4 0xCB007100) 24, countryRecord ''JP'')]\<rparr>"
  have g: "GetEntry exContainer ''ZZ'' = None"
    by (simp add: exContainer_def)
  have f: "fst ?r = None"
    by (simp add: example_defs)
  then have p: "?r = (None, snd ?r)"
    by (metis prod.collapse)
  have q: "addAllEntries exConfig exEnv exContainer [''JP''] exWriter exWorld = (Inr ?w, exWorld)"
    by (simp add: example_defs exWriter_def)
  have "outputOneFilePerList ?m exEnv exContainer ([''US''] @ ''ZZ'' # []) exWorld =
        outputOneFilePerList ?m exEnv exContainer [] (logf (EntryNotFound ''ZZ'') (snd ?r))"
    using missing_label_skipped [OF g, of ?m exEnv "[''US'']" exWorld "snd ?r" "[]"] p
    by blast
  then have 1: "outputOneFilePerList ?m exEnv exContainer [''US'', ''ZZ''] exWorld =
        (None, logf (EntryNotFound ''ZZ'') (snd ?r))"
    by simp
  have "addAllEntries exConfig exEnv exContainer ([''JP''] @ ''ZZ'' # []) exWriter exWorld =
        addAllEntries exConfig exEnv exContainer [] ?w (logf (EntryNotFound ''ZZ'') exWorld)"
    using missing_label_skipped [OF g, of exConfig exEnv "[''JP'']" exWorld exWorld "[]"
        exWriter ?w] q
    by blast
  then have 2: "addAllEntries exConfig exEnv exContainer [''JP'', ''ZZ''] exWriter exWorld =
        (Inr ?w, logf (EntryNotFound ''ZZ'') exWorld)"
    by simp
  from 1 2 q g f show ?thesis by (simp add: logf_def)
qed

text \<open>
  The claim as written fails: in per-label mode a wanted label that the container does not
  have is skipped, the file of the other label is written and \<open>Output\<close> returns no error.
\<close>

theorem missing_label_skipped_counterexample:
  "OneFilePerList (exConfig\<lparr>OneFilePerList := True, Want := [''ZZ'', ''US'']\<rparr>) \<and>
   filterAndSortList (exConfig\<lparr>OneFilePerList := True, Want := [''ZZ'', ''US'']\<rparr>) exEnv
     exContainer = [''US'', ''ZZ''] \<and>
   GetEntry exContainer ''ZZ'' = None \<and>
   fst (Output (exConfig\<lparr>OneFilePerList := True, Want := [''ZZ'', ''US'']\<rparr>) exEnv exContainer
          exWorld) = None"
proof -
  let ?m = "exConfig\<lparr>OneFilePerList := True, Want := [''ZZ'', ''US'']\<rparr>"
  have l: "filterAndSortList ?m exEnv exContainer = [''US'', ''ZZ'']"
    unfolding exConfig_def exContainer_def entryUS_def entryJP_def entryCN_def by code_simp
  have "fst (Output ?m exEnv exContainer exWorld) = None"
    unfolding Output_def l by (simp add: example_defs)
  then show ?thesis using l by (simp add: exContainer_def)
qed

text \<open>
  C6. In the per-label loop the tree of a label is built before \<open>os.Create\<close> is called.
  When the labels before it have been written and building the tree of the current label
  fails, the run stops with the error that names the label, and the world is the one the
  earlier labels left: no file has been created or written for the failing label.
\<close>

theorem build_failure_leaves_no_file:
  assumes "outputOneFilePerList m env c pre s = (None, s1)"
    and "GetEntry c name = Some entry"
    and "createWriter m env = Inr w"
    and "addEntryToWriter m env w entry name = Inl err"
  shows "outputOneFilePerList m env c (pre @ name # post) s =
           (Some (FailedToAddEntry name err), s1)"
  using assms by (simp add: outputOneFilePerList_append)

theorem build_failure_leaves_no_file_witness:
  "outputOneFilePerList (exConfig\<lparr>OneFilePerList := True\<rparr>) failEnv exContainer
     [''CN'', ''JP'', ''US''] exWorld =
     (Some (FailedToAddEntry ''JP'' (External ''insert failed'')),
      snd (outputOneFilePerList (exConfig\<lparr>OneFilePerList := True\<rparr>) failEnv exContainer
             [''CN''] exWorld)) \<and>
   dom (files (snd (outputOneFilePerList (exConfig\<lparr>OneFilePerList := True\<rparr>) failEnv
                      exContainer [''CN''] exWorld))) = {''output/mmdb/cn.mmdb''}"
proof -
  let ?m = "exConfig\<lparr>OneFilePerList := True\<rparr>"
  let ?r = "outputOneFilePerList ?m failEnv exContainer [''CN''] exWorld"
  have f: "fst ?r = None"
    by (simp add: example_defs)
  then have p: "?r = (None, snd ?r)"
    by (metis prod.collapse)
  have d: "dom (files (snd ?r)) = {''output/mmdb/cn.mmdb''}"
    by (simp add: example_defs)
  have g: "GetEntry exContainer ''JP'' = Some entryJP"
    by (simp add: exContainer_def)
  have c: "createWriter ?m failEnv = Inr exWriter"
    by (simp add: example_defs exWriter_def)
  have a: "addEntryToWriter ?m failEnv exWriter entryJP ''JP'' = Inl (External ''insert failed'')"
    by (simp add: example_defs exWriter_def)
  from build_failure_leaves_no_file [OF p g c a, of "[''US'']"] d
  show ?thesis by simp
qed

text \<open>
  C7, as the code has it. A per-label run that returns no error has written one file for every
  selected label that the container has, at the path made of the output directory and the
  lowercased label followed by \<open>.mmdb\<close>; each holds a complete database, and no other file
  has changed. The name is all that tells the files apart: when these paths differ from
  each other and from the files already there, the run has added as many files as there are
  such labels, and labels with the same lowercased name share one file.
\<close>

theorem one_file_per_label:
  assumes "outputOneFilePerList m env c list s = (None, s')"
  shows "dom (files s') = dom (files s) \<union>
           set (map (perLabelPath m env) (filter (\<lambda>n. GetEntry c n \<noteq> None) list)) \<and>
         (\<forall>n \<in> set list. GetEntry c n \<noteq> None \<longrightarrow>
            (\<exists>w. files s' (perLabelPath m env n) = Some (Database w))) \<and>
         (\<forall>p. p \<notin> set (map (perLabelPath m env) (filter (\<lambda>n. GetEntry c n \<noteq> None) list)) \<longrightarrow>
            files s' p = files s p) \<and>
         (distinct (map (perLabelPath m env) (filter (\<lambda>n. GetEntry c n \<noteq> None) list)) \<and>
          dom (files s) \<inter>
            set (map (perLabelPath m env) (filter (\<lambda>n. GetEntry c n \<noteq> None) list)) = {} \<longrightarrow>
            card (dom (files s') - dom (files s)) =
              length (filter (\<lambda>n. GetEntry c n \<noteq> None) list))"
proof -
  let ?paths = "\<lambda>list. map (perLabelPath m env) (filter (\<lambda>n. GetEntry c n \<noteq> None) list)"
  have main: "(\<forall>p. p \<notin> set (?paths list) \<longrightarrow> files s' p = files s p) \<and>
              (\<forall>p \<in> set (?paths list). \<exists>w. files s' p = Some (Database w))"
    using assms
  proof (induction list arbitrary: s)
    case Nil
    then show ?case by simp
  next
    case (Cons name rest)
    show ?case
    proof (cases "GetEntry c name")
      case None
      with Cons.prems
      have "outputOneFilePerList m env c rest (logf (EntryNotFound name) s) = (None, s')"
        by simp
      from Cons.IH [OF this] have
        "(\<forall>p. p \<notin> set (?paths rest) \<longrightarrow> files s' p = files s p) \<and>
         (\<forall>p \<in> set (?paths rest). \<exists>w. files s' p = Some (Database w))"
        by (simp only: files_logf)
      moreover have "?paths (name # rest) = ?paths rest"
        using None by simp
      ultimately show ?thesis by (simp only:)
    next
      case (Some entry)
      with Cons.prems obtain w w' s1 where
        wf: "writeFile env w' (perLabelPath m env name) s = (None, s1)" and
        rest: "outputOneFilePerList m env c rest
                (logf (Converted (Type m) (ToLower env name @ ''.mmdb'') (OutputDir m)) s1) = (None, s')"
        by (auto simp: Let_def perLabelPath_def split: option.splits sum.splits prod.splits)
      have f1: "files s1 = (files s)(perLabelPath m env name \<mapsto> Database w')"
        using writeFile_None [OF wf] by simp
      have ih: "(\<forall>p. p \<notin> set (?paths rest) \<longrightarrow> files s' p = files s1 p) \<and>
                (\<forall>p \<in> set (?paths rest). \<exists>w. files s' p = Some (Database w))"
        using Cons.IH [OF rest] by (simp only: files_logf)
      have ps: "?paths (name # rest) = perLabelPath m env name # ?paths rest"
        using Some by simp
      have here: "\<exists>w. files s' (perLabelPath m env name) = Some (Database w)"
      proof (cases "perLabelPath m env name \<in> set (?paths rest)")
        case True
        with ih show ?thesis by blast
      next
        case False
        with ih have "files s' (perLabelPath m env name) = files s1 (perLabelPath m env name)"
          by blast
        then show ?thesis by (simp add: f1)
      qed
      have other: "\<forall>p. p \<notin> set (?paths (name # rest)) \<longrightarrow> files s' p = files s p"
      proof (intro allI impI)
        fix p assume "p \<notin> set (?paths (name # rest))"
        then have n: "p \<noteq> perLabelPath m env name" "p \<notin> set (?paths rest)"
          unfolding ps by auto
        with ih have "files s' p = files s1 p" by blast
        with n show "files s' p = files s p" by (simp add: f1)
      qed
      have "\<forall>p \<in> set (?paths (name # rest)). \<exists>w. files s' p = Some (Database w)"
        unfolding ps using here ih by auto
      with other show ?thesis by blast
    qed
  qed
  have dom_eq: "dom (files s') = dom (files s) \<union> set (?paths list)"
  proof (rule set_eqI)
    fix p
    show "p \<in> dom (files s') \<longleftrightarrow> p \<in> dom (files s) \<union> set (?paths list)"
    proof (cases "p \<in> set (?paths list)")
      case True
      with main show ?thesis by auto
    next
      case False
      with main have "files s' p = files s p" by blast
      with False show ?thesis by (auto simp: dom_def)
    qed
  qed
  have each: "\<forall>n \<in> set list. GetEntry c n \<noteq> None \<longrightarrow>
            (\<exists>w. files s' (perLabelPath m env n) = Some (Database w))"
    using main by auto
  have unchanged: "\<forall>p. p \<notin> set (?paths list) \<longrightarrow> files s' p = files s p"
    using main by blast
  have count: "distinct (?paths list) \<and> dom (files s) \<inter> set (?paths list) = {} \<longrightarrow>
            card (dom (files s') - dom (files s)) =
              length (filter (\<lambda>n. GetEntry c n \<noteq> None) list)"
  proof
    assume h: "distinct (?paths list) \<and> dom (files s) \<inter> set (?paths list) = {}"
    then have e: "dom (files s') - dom (files s) = set (?paths list)"
      unfolding dom_eq by blast
    have "card (dom (files s') - dom (files s)) = card (set (?paths list))"
      by (simp only: e)
    also have "\<dots> = length (?paths list)"
      using h by (intro distinct_card) blast
    also have "\<dots> = length (filter (\<lambda>n. GetEntry c n \<noteq> None) list)"
      by (rule length_map)
    finally show "card (dom (files s') - dom (files s)) =
              length (filter (\<lambda>n. GetEntry c n \<noteq> None) list)" .
  qed
  from dom_eq each unchanged count show ?thesis by blast
qed

theorem one_file_per_label_witness:
  "fst (outputOneFilePerList (exConfig\<lparr>OneFilePerList := True\<rparr>) exEnv exContainer
          [''CN'', ''JP'', ''US''] exWorld) = None \<and>
   dom (files (snd (outputOneFilePerList (exConfig\<lparr>OneFilePerList := True\<rparr>) exEnv exContainer
          [''CN'', ''JP'', ''US''] exWorld))) =
     {''output/mmdb/cn.mmdb'', ''output/mmdb/jp.mmdb'', ''output/mmdb/us.mmdb''} \<and>
   card (dom (files (snd (outputOneFilePerList (exConfig\<lparr>OneFilePerList := True\<rparr>) exEnv
          exContainer [''CN'', ''JP'', ''US''] exWorld)))) = 3"
proof -
  let ?m = "exConfig\<lparr>OneFilePerList := True\<rparr>"
  let ?r = "outputOneFilePerList ?m exEnv exContainer [''CN'', ''JP'', ''US''] exWorld"
  have f: "fst ?r = None"
    by (simp add: example_defs)
  then have p: "?r = (None, snd ?r)"
    by (metis prod.collapse)
  have ps: "map (perLabelPath ?m exEnv)
              (filter (\<lambda>n. GetEntry exContainer n \<noteq> None) [''CN'', ''JP'', ''US'']) =
            [''output/mmdb/cn.mmdb'', ''output/mmdb/jp.mmdb'', ''output/mmdb/us.mmdb'']"
    by (simp add: perLabelPath_def example_defs)
  have e: "dom (files exWorld) = {}"
    by (simp add: exWorld_def)
  note t = one_file_per_label [OF p, unfolded ps e]
  from t have d: "dom (files (snd ?r)) =
     {''output/mmdb/cn.mmdb'', ''output/mmdb/jp.mmdb'', ''output/mmdb/us.mmdb''}"
    by simp
  from t have "card (dom (files (snd ?r)) - {}) = length [''CN'', ''JP'', ''US'']"
    by (simp add: exContainer_def)
  then have "card (dom (files (snd ?r))) = 3"
    by simp
  with f d show ?thesis by blast
qed

text \<open>
  The claim as written fails: two selected labels that differ in letter case only are both in
  the container, the run returns no error, and one file is on disk for the two of them.
\<close>

theorem one_file_per_label_counterexample:
  "OneFilePerList (exConfig\<lparr>OneFilePerList := True\<rparr>) \<and>
   filterAndSortList (exConfig\<lparr>OneFilePerList := True\<rparr>) exEnv lowerContainer = [''US'', ''us''] \<and>
   GetEntry lowerContainer ''US'' = Some entryUS \<and>
   GetEntry lowerContainer ''us'' = Some entryLower \<and>
   fst (Output (exConfig\<lparr>OneFilePerList := True\<rparr>) exEnv lowerContainer exWorld) = None \<and>
   dom (files (snd (Output (exConfig\<lparr>OneFilePerList := True\<rparr>) exEnv lowerContainer exWorld))) =
     {''output/mmdb/us.mmdb''}"
proof -
  let ?m = "exConfig\<lparr>OneFilePerList := True\<rparr>"
  have l: "filterAndSortList ?m exEnv lowerContainer = [''US'', ''us'']"
    unfolding exConfig_def lowerContainer_def entryUS_def entryLower_def by code_simp
  have g: "GetEntry lowerContainer ''US'' = Some entryUS"
    "GetEntry lowerContainer ''us'' = Some entryLower"
    by (simp_all add: lowerContainer_def)
  have f: "fst (Output ?m exEnv lowerContainer exWorld) = None"
    unfolding Output_def l by (simp add: lowerContainer_def entryLower_def example_defs)
  have d: "dom (files (snd (Output ?m exEnv lowerContainer exWorld))) = {''output/mmdb/us.mmdb''}"
    unfolding Output_def l by (simp add: lowerContainer_def entryLower_def example_defs)
  from l g f d show ?thesis by simp
qed

section \<open>Overlapping prefixes\<close>

text \<open>Inserting a prefix makes every address below it resolve to the new value and no other.\<close>

lemma trie_lookup_insert:
  "length p \<le> length a \<Longrightarrow>
   trie_lookup (trie_insert p v t) a = (if take (length p) a = p then Some v else trie_lookup t a)"
proof (induction p v t arbitrary: a rule: trie_insert.induct)
  case (1 v t)
  then show ?case by simp
next
  case (2 b bs v)
  then show ?case by (cases a) auto
next
  case (3 b bs v x)
  then show ?case by (cases a) auto
next
  case (4 b bs v l r)
  then show ?case by (cases a) auto
qed

lemma length_bitsOf: "length (bitsOf (w::'a::len word)) = LENGTH('a)"
  by (simp add: bitsOf_def)

text \<open>Agreeing on the first n bits is what \<open>Contains\<close> computes with a shift.\<close>

lemma take_bitsOf_eq:
  fixes a p :: "32 word"
  assumes "n \<le> 32"
  shows "(take n (bitsOf a) = take n (bitsOf p)) = Contains4 p n a"
proof -
  have "(take n (bitsOf a) = take n (bitsOf p)) = (\<forall>i<n. bit a (31 - i) = bit p (31 - i))"
    using assms by (auto simp: bitsOf_def take_map list_eq_iff_nth_eq)
  also have "\<dots> = (\<forall>j. \<not> bit (drop_bit (32 - n) (a XOR p)) j)"
  proof
    assume h: "\<forall>i<n. bit a (31 - i) = bit p (31 - i)"
    show "\<forall>j. \<not> bit (drop_bit (32 - n) (a XOR p)) j"
    proof
      fix j
      show "\<not> bit (drop_bit (32 - n) (a XOR p)) j"
      proof (cases "32 - n + j < 32")
        case True
        then have "31 - (32 - n + j) < n" using assms by arith
        from h [rule_format, OF this] True show ?thesis
          by (simp add: bit_drop_bit_eq bit_xor_iff)
      next
        case False
        have "\<not> bit (a XOR p) (32 - n + j)"
          using False bit_imp_le_length [of "a XOR p" "32 - n + j"] by auto
        then show ?thesis
          unfolding bit_drop_bit_eq o_apply .
      qed
    qed
  next
    assume h: "\<forall>j. \<not> bit (drop_bit (32 - n) (a XOR p)) j"
    show "\<forall>i<n. bit a (31 - i) = bit p (31 - i)"
    proof (intro allI impI)
      fix i assume "i < n"
      then have e: "32 - n + (n - Suc i) = 31 - i" using assms by arith
      from h [rule_format, of "n - Suc i"] show "bit a (31 - i) = bit p (31 - i)"
        by (simp add: bit_drop_bit_eq bit_xor_iff e)
    qed
  qed
  also have "\<dots> = (drop_bit (32 - n) (a XOR p) = 0)"
  proof
    assume "\<forall>j. \<not> bit (drop_bit (32 - n) (a XOR p)) j"
    then show "drop_bit (32 - n) (a XOR p) = 0"
      by (intro bit_word_eqI) simp
  next
    assume "drop_bit (32 - n) (a XOR p) = 0"
    then show "\<forall>j. \<not> bit (drop_bit (32 - n) (a XOR p)) j"
      by simp
  qed
  finally show ?thesis using assms by (simp add: Contains4_def)
qed

text \<open>Resolving an IPv4 address after one more IPv4 insertion.\<close>

lemma resolve_snoc:
  fixes a p :: "32 word"
  assumes "n \<le> 32" and "inserted w' = inserted w @ [(Prefix (Addr4 p) n, v)]"
  shows "resolve root w' (Addr4 a) = (if Contains4 p n a then Some v else resolve root w (Addr4 a))"
proof -
  have t: "trieOf root w' = trie_insert (root @ take n (bitsOf p)) v (trieOf root w)"
    by (simp add: trieOf_def assms(2))
  have l: "length (root @ take n (bitsOf p)) = length root + n"
    using assms(1) by (simp add: length_bitsOf)
  have le: "length (root @ take n (bitsOf p)) \<le> length (root @ bitsOf a)"
    using assms(1) by (simp add: length_bitsOf)
  have "(take (length root + n) (root @ bitsOf a) = root @ take n (bitsOf p)) = Contains4 p n a"
    using take_bitsOf_eq [OF assms(1), of a p] by simp
  then show ?thesis
    unfolding resolve_def t addrBits.simps trie_lookup_insert [OF le] l by simp
qed

lemma resolve_nothing_inserted: "inserted w = [] \<Longrightarrow> resolve root w a = None"
  by (simp add: resolve_def trieOf_def)

text \<open>A sequence of insertions: the last one whose bit path the key starts with decides.\<close>

lemma trie_lookup_foldl:
  "list_all (\<lambda>(p, v). length (prefixBits root p) \<le> length k) ins \<Longrightarrow>
   trie_lookup (foldl (\<lambda>t (p, v). trie_insert (prefixBits root p) v t) t0 ins) k =
   foldl (\<lambda>r (p, v). if take (length (prefixBits root p)) k = prefixBits root p then Some v else r)
     (trie_lookup t0 k) ins"
proof (induction ins rule: rev_induct)
  case Nil
  then show ?case by simp
next
  case (snoc x xs)
  obtain p v where x: "x = (p, v)" by (cases x)
  from snoc.prems have le: "length (prefixBits root p) \<le> length k"
    and rest: "list_all (\<lambda>(p, v). length (prefixBits root p) \<le> length k) xs"
    by (simp_all add: x)
  show ?case
    by (simp add: x snoc.IH [OF rest] trie_lookup_insert [OF le])
qed

lemma resolve_lastWrite:
  assumes "list_all (\<lambda>(p, v). length (prefixBits root p) \<le> length (addrBits root a)) (inserted w)"
  shows "resolve root w a = lastWrite root (inserted w) a"
  unfolding resolve_def trieOf_def lastWrite_def covers_def
  using trie_lookup_foldl [OF assms, of Empty] by simp

text \<open>
  Every prefix fits a 128-bit tree (IPv4 below a root path of 96 bits), and every IPv4
  prefix fits a 32-bit tree.
\<close>

lemma fits_128: "length root = 96 \<Longrightarrow> length (prefixBits root p) \<le> length (addrBits root a)"
proof -
  assume r: "length root = 96"
  obtain x n where p: "p = Prefix x n" by (cases p)
  show ?thesis
    by (cases x; cases a) (simp_all add: p r length_bitsOf)
qed

lemma fits_32: "Is4 p \<Longrightarrow> length (prefixBits [] p) \<le> length (addrBits [] a)"
proof -
  assume 4: "Is4 p"
  obtain x n where p: "p = Prefix x n" by (cases p)
  from 4 show ?thesis
    by (cases x; cases a) (simp_all add: p length_bitsOf)
qed

lemma fits_tree:
  assumes "length root = 96 \<or> (root = [] \<and> list_all (\<lambda>(p, v). Is4 p) ins)"
  shows "list_all (\<lambda>(p, v). length (prefixBits root p) \<le> length (addrBits root a)) ins"
  using assms by (auto simp: list_all_iff fits_128 fits_32)

text \<open>The aggregate loop inserts in the order of its list.\<close>

lemma addAllEntries_inserted:
  "addAllEntries m env c list w s = (Inr w', s') \<Longrightarrow>
     inserted w' = inserted w @ insertionsOf m c list"
proof (induction list arbitrary: w s)
  case Nil
  then show ?case by (simp add: insertionsOf_def)
next
  case (Cons name rest)
  show ?case
  proof (cases "GetEntry c name")
    case None
    with Cons.prems have "addAllEntries m env c rest w (logf (EntryNotFound name) s) = (Inr w', s')"
      by simp
    from Cons.IH [OF this] None show ?thesis by (simp add: insertionsOf_def)
  next
    case (Some entry)
    with Cons.prems obtain w1 where
      a: "addEntryToWriter m env w entry name = Inr w1" and
      r: "addAllEntries m env c rest w1 s = (Inr w', s')"
      by (auto split: sum.splits)
    from addEntryToWriter_Inr [OF a] obtain ps where
      ps: "selectPrefixes m entry = Inr ps" and
      i: "inserted w1 = inserted w @ map (\<lambda>p. (p, countryRecord name)) ps"
      by blast
    from Cons.IH [OF r] show ?thesis
      by (simp add: i insertionsOf_def Some ps)
  qed
qed

lemma outputSingleFile_None:
  assumes "outputSingleFile m env c list s = (None, s')"
  shows "\<exists>w. files s' (Join env (OutputDir m) (OutputName m)) = Some (Database w) \<and>
             inserted w = insertionsOf m c list"
proof -
  from assms obtain w0 w2 s1 s2 where
    c0: "createWriter m env = Inr w0" and
    all: "addAllEntries m env c list w0 s = (Inr w2, s1)" and
    wf: "writeFile env w2 (Join env (OutputDir m) (OutputName m)) s1 = (None, s2)" and
    s': "s' = logf (Converted (Type m) (OutputName m) (OutputDir m)) s2"
    by (auto simp: outputSingleFile_def Let_def split: sum.splits prod.splits option.splits)
  from c0 have i0: "inserted w0 = []"
    by (auto simp: createWriter_def Let_def split: option.splits)
  have "files s' (Join env (OutputDir m) (OutputName m)) = Some (Database w2)"
    using writeFile_None [OF wf] by (simp add: s' files_logf)
  moreover have "inserted w2 = insertionsOf m c list"
    using addAllEntries_inserted [OF all] i0 by simp
  ultimately show ?thesis by blast
qed

lemma resolve_two:
  fixes a :: "32 word"
  assumes "inserted w = [(Prefix (Addr4 0x0A000000) 8, ra), (Prefix (Addr4 0x0A010000) 16, rb)]"
  shows "resolve root w (Addr4 a) =
           (if Contains4 0x0A010000 16 a then Some rb
            else if Contains4 0x0A000000 8 a then Some ra else None)"
proof -
  let ?w0 = "w\<lparr>inserted := []\<rparr>"
  let ?w1 = "w\<lparr>inserted := [(Prefix (Addr4 0x0A000000) 8, ra)]\<rparr>"
  have 0: "resolve root ?w0 (Addr4 a) = None"
    by (rule resolve_nothing_inserted) simp
  have "inserted ?w1 = inserted ?w0 @ [(Prefix (Addr4 0x0A000000) 8, ra)]"
    by simp
  from resolve_snoc [OF _ this, of root a] 0
  have 1: "resolve root ?w1 (Addr4 a) = (if Contains4 0x0A000000 8 a then Some ra else None)"
    by simp
  have "inserted w = inserted ?w1 @ [(Prefix (Addr4 0x0A010000) 16, rb)]"
    by (simp add: assms)
  from resolve_snoc [OF _ this, of root a] 1 show ?thesis
    by simp
qed

text \<open>
  C3. In aggregate mode the database that a successful run writes holds the insertions of the
  selected labels in the Selector's sorted order, each label's prefixes with that label's
  record. In the trie of section 4.3, for a 128-bit tree and for a 32-bit tree of IPv4
  prefixes, every address resolves to the record of the last insertion whose prefix covers
  it, and to nothing when none does: a later insertion overwrites the region it overlaps,
  whether it is the more specific or the wider one. In particular, when the insertions are
  10.0.0.0/8 with record A and then 10.1.0.0/16 with record B, every address of
  10.1.0.0/16 resolves to B, every other address of 10.0.0.0/8 to A, and every address outside
  to nothing.
\<close>

theorem overlap_last_write_wins:
  assumes "Output m env c s = (None, s')" and "\<not> OneFilePerList m"
  shows "\<exists>w. files s' (Join env (OutputDir m) (OutputName m)) = Some (Database w) \<and>
             inserted w = insertionsOf m c (filterAndSortList m env c) \<and>
             (\<forall>root a. length root = 96 \<or> (root = [] \<and> list_all (\<lambda>(p, v). Is4 p) (inserted w)) \<longrightarrow>
                resolve root w a = lastWrite root (inserted w) a) \<and>
             (\<forall>root a ra rb.
                inserted w = [(Prefix (Addr4 0x0A000000) 8, ra), (Prefix (Addr4 0x0A010000) 16, rb)] \<longrightarrow>
                resolve root w (Addr4 a) =
                  (if Contains4 0x0A010000 16 a then Some rb
                   else if Contains4 0x0A000000 8 a then Some ra else None))"
proof -
  from assms obtain s1 where
    "outputSingleFile m env c (filterAndSortList m env c) s1 = (None, s')"
    by (auto simp: Output_def Let_def split: option.splits)
  from outputSingleFile_None [OF this] obtain w where
    f: "files s' (Join env (OutputDir m) (OutputName m)) = Some (Database w)" and
    i: "inserted w = insertionsOf m c (filterAndSortList m env c)"
    by blast
  have g: "\<forall>root a. length root = 96 \<or> (root = [] \<and> list_all (\<lambda>(p, v). Is4 p) (inserted w)) \<longrightarrow>
                resolve root w a = lastWrite root (inserted w) a"
    using resolve_lastWrite [OF fits_tree] by blast
  have e: "\<forall>root a ra rb.
                inserted w = [(Prefix (Addr4 0x0A000000) 8, ra), (Prefix (Addr4 0x0A010000) 16, rb)] \<longrightarrow>
                resolve root w (Addr4 a) =
                  (if Contains4 0x0A010000 16 a then Some rb
                   else if Contains4 0x0A000000 8 a then Some ra else None)"
    using resolve_two by blast
  from f i g e show ?thesis by blast
qed

theorem overlap_last_write_wins_witness:
  "\<not> OneFilePerList exConfig \<and>
   filterAndSortList exConfig exEnv abContainer = [''A'', ''B''] \<and>
   fst (Output exConfig exEnv abContainer exWorld) = None \<and>
   files (snd (Output exConfig exEnv abContainer exWorld)) ''output/mmdb/Country.mmdb'' =
     Some (Database abWriter) \<and>
   resolve (replicate 96 False) abWriter (Addr4 0x0A010203) = Some (countryRecord ''B'') \<and>
   resolve (replicate 96 False) abWriter (Addr4 0x0A020304) = Some (countryRecord ''A'') \<and>
   resolve (replicate 96 False) abWriter (Addr4 0x0B000000) = None \<and>
   filterAndSortList exConfig exEnv baContainer = [''A'', ''B''] \<and>
   fst (Output exConfig exEnv baContainer exWorld) = None \<and>
   files (snd (Output exConfig exEnv baContainer exWorld)) ''output/mmdb/Country.mmdb'' =
     Some (Database baWriter) \<and>
   resolve (replicate 96 False) baWriter (Addr4 0x0A010203) = Some (countryRecord ''B'') \<and>
   resolve (replicate 96 False) baWriter (Addr4 0x0A020304) = Some (countryRecord ''B'') \<and>
   resolve (replicate 96 False) baWriter (Addr4 0x0B000000) = None"
proof -
  let ?r = "Output exConfig exEnv abContainer exWorld"
  let ?q = "Output exConfig exEnv baContainer exWorld"
  let ?root = "replicate 96 False"
  have o: "\<not> OneFilePerList exConfig"
    by (simp add: exConfig_def)
  have l: "filterAndSortList exConfig exEnv abContainer = [''A'', ''B'']"
    unfolding exConfig_def abContainer_def entryA_def entryB_def by code_simp
  have l': "filterAndSortList exConfig exEnv baContainer = [''A'', ''B'']"
    unfolding exConfig_def baContainer_def entryA16_def entryB8_def by code_simp
  have f: "fst ?r = None"
    unfolding Output_def l
    by (simp add: outputSingleFile_def abContainer_def entryA_def entryB_def example_defs)
  then have p: "?r = (None, snd ?r)"
    by (metis prod.collapse)
  have d: "files (snd ?r) ''output/mmdb/Country.mmdb'' = Some (Database abWriter)"
    unfolding Output_def l
    by (simp add: outputSingleFile_def abContainer_def entryA_def entryB_def example_defs
        abWriter_def exWriter_def)
  have f': "fst ?q = None"
    unfolding Output_def l'
    by (simp add: outputSingleFile_def baContainer_def entryA16_def entryB8_def example_defs)
  then have p': "?q = (None, snd ?q)"
    by (metis prod.collapse)
  have d': "files (snd ?q) ''output/mmdb/Country.mmdb'' = Some (Database baWriter)"
    unfolding Output_def l'
    by (simp add: outputSingleFile_def baContainer_def entryA16_def entryB8_def example_defs
        baWriter_def exWriter_def)
  have j: "Join exEnv (OutputDir exConfig) (OutputName exConfig) = ''output/mmdb/Country.mmdb''"
    by (simp add: exEnv_def exConfig_def)
  have ia: "inserted abWriter = [(Prefix (Addr4 0x0A000000) 8, countryRecord ''A''),
                                 (Prefix (Addr4 0x0A010000) 16, countryRecord ''B'')]"
    by (simp add: abWriter_def)
  have len: "length ?root = 96"
    by simp
  from overlap_last_write_wins [OF p o] d ia
  have r: "resolve ?root abWriter (Addr4 a) =
             (if Contains4 0x0A010000 16 a then Some (countryRecord ''B'')
              else if Contains4 0x0A000000 8 a then Some (countryRecord ''A'')
              else None)" for a
    unfolding j by auto
  from overlap_last_write_wins [OF p' o] d' len
  have r': "resolve ?root baWriter a = lastWrite ?root (inserted baWriter) a" for a
    unfolding j by auto
  have c: "Contains4 0x0A010000 16 0x0A010203" "\<not> Contains4 0x0A010000 16 0x0A020304"
    "Contains4 0x0A000000 8 0x0A020304" "\<not> Contains4 0x0A010000 16 0x0B000000"
    "\<not> Contains4 0x0A000000 8 0x0B000000"
    by (simp_all add: Contains4_def)
  have v: "lastWrite ?root (inserted baWriter) (Addr4 0x0A010203) = Some (countryRecord ''B'')"
    "lastWrite ?root (inserted baWriter) (Addr4 0x0A020304) = Some (countryRecord ''B'')"
    "lastWrite ?root (inserted baWriter) (Addr4 0x0B000000) = None"
    unfolding baWriter_def exWriter_def by code_simp+
  from o l f d r [of "0x0A010203"] r [of "0x0A020304"] r [of "0x0B000000"] c
    l' f' d' r' v
  show ?thesis by simp
qed

end
